theory Spec2Isabelle
  imports Complex_Main "HOL-Library.AList"
begin

section \<open>JavaScript values\<close>

text \<open>
  The two services of the console (the REST provider and the view-frame provider) are
  JavaScript modules. Their values are modelled by the plain-data fragment of the
  language: \<open>undefined\<close>, \<open>null\<close>, booleans, integer numbers and \<open>NaN\<close>, strings,
  arrays and plain objects.

  \<^item> A string is a list of Latin-1 code units (\<open>char\<close> has 256 values); code units
    above 255 are outside the model.
  \<^item> A number is an integer or \<open>NaN\<close>; fractions and infinities are outside the
    model. The numbers a caller passes are the safe integers, of magnitude at most
    \<open>2^53 - 1\<close>: the predicate \<open>plain\<close> below says so, and a theorem about all
    values that renders or adds numbers assumes it.
  \<^item> An object is the list of its own enumerable properties in the order in which
    \<open>for ... in\<close> and \<open>Object.keys\<close> enumerate them (array indices first, in
    ascending order, then the other keys); its prototype is \<open>Object.prototype\<close>.
    Functions are not values of the model; the built-in functions that every object
    inherits appear only as the result \<open>Native\<close> of reading a property.
\<close>

datatype jsval =
    JUndefined
  | JNull
  | JBool bool
  | JNum int
  | JNaN
  | JStr string
  | JArr "jsval list"
  | JObj "(string \<times> jsval) list"

type_synonym js_object = "(string \<times> jsval) list"

datatype js_error = TypeError

text \<open>The \<open>typeof\<close> operator.\<close>

fun typeof :: "jsval \<Rightarrow> string" where
  "typeof JUndefined = ''undefined''"
| "typeof JNull = ''object''"
| "typeof (JBool b) = ''boolean''"
| "typeof (JNum n) = ''number''"
| "typeof JNaN = ''number''"
| "typeof (JStr s) = ''string''"
| "typeof (JArr xs) = ''object''"
| "typeof (JObj kvs) = ''object''"

text \<open>Decimal rendering of an integer, as \<open>String(n)\<close> gives it below \<open>10^21\<close>.\<close>

definition digit_char :: "nat \<Rightarrow> char" where
  "digit_char d = ''0123456789'' ! d"

fun show_nat :: "nat \<Rightarrow> string" where
  "show_nat n = (if n < 10 then [digit_char n] else show_nat (n div 10) @ [digit_char (n mod 10)])"

declare show_nat.simps [simp del]

definition show_int :: "int \<Rightarrow> string" where
  "show_int i = (if i < 0 then CHR ''-'' # show_nat (nat (- i)) else show_nat (nat i))"

text \<open>
  \<open>Array.prototype.join\<close> and \<open>String(v)\<close> (also what a template literal and
  \<open>+\<close> with a string do to a value), for the values that \<open>plain\<close> below
  admits: a number is rendered in decimal, as \<open>String\<close> does below \<open>10^21\<close>, and
  an object by the \<open>toString\<close> it inherits (\<open>String\<close> raises on an object that
  has a property \<open>toString\<close> of its own that is not a function).
\<close>

fun join :: "string \<Rightarrow> string list \<Rightarrow> string" where
  "join sep [] = []"
| "join sep [x] = x"
| "join sep (x # y # ys) = x @ sep @ join sep (y # ys)"

fun to_string :: "jsval \<Rightarrow> string" where
  "to_string JUndefined = ''undefined''"
| "to_string JNull = ''null''"
| "to_string (JBool b) = (if b then ''true'' else ''false'')"
| "to_string (JNum n) = show_int n"
| "to_string JNaN = ''NaN''"
| "to_string (JStr s) = s"
| "to_string (JArr xs) =
     join '','' (map (\<lambda>x. if x = JUndefined \<or> x = JNull then [] else to_string x) xs)"
| "to_string (JObj kvs) = ''[object Object]''"


text \<open>Truthiness, \<open>a || b\<close>, and the \<open>+\<close> operator on plain data.\<close>

fun truthy :: "jsval \<Rightarrow> bool" where
  "truthy JUndefined = False"
| "truthy JNull = False"
| "truthy (JBool b) = b"
| "truthy (JNum n) = (n \<noteq> 0)"
| "truthy JNaN = False"
| "truthy (JStr s) = (s \<noteq> [])"
| "truthy (JArr xs) = True"
| "truthy (JObj kvs) = True"

definition js_or :: "jsval \<Rightarrow> jsval \<Rightarrow> jsval" where
  "js_or a b = (if truthy a then a else b)"

fun to_primitive :: "jsval \<Rightarrow> jsval" where
  "to_primitive (JArr xs) = JStr (to_string (JArr xs))"
| "to_primitive (JObj kvs) = JStr (to_string (JObj kvs))"
| "to_primitive v = v"

text \<open>\<open>ToNumber\<close> of a primitive that is not a string; \<open>None\<close> is \<open>NaN\<close>.\<close>

fun to_number :: "jsval \<Rightarrow> int option" where
  "to_number JNull = Some 0"
| "to_number (JBool b) = Some (if b then 1 else 0)"
| "to_number (JNum n) = Some n"
| "to_number v = None"

text \<open>
  The double nearest to an integer of magnitude at most \<open>2^54\<close> (the sum of two safe
  integers): the integer itself up to \<open>2^53\<close>; beyond, the doubles are the even
  integers, and an odd one lies halfway between two of them and goes to the one with
  the even mantissa, the multiple of 4.
\<close>

definition to_double :: "int \<Rightarrow> int" where
  "to_double s =
     (if \<bar>s\<bar> \<le> 9007199254740992 \<or> even s then s
      else if (s + 1) mod 4 = 0 then s + 1 else s - 1)"

definition js_add :: "jsval \<Rightarrow> jsval \<Rightarrow> jsval" where
  "js_add a b =
     (let pa = to_primitive a; pb = to_primitive b in
      if typeof pa = ''string'' \<or> typeof pb = ''string''
      then JStr (to_string pa @ to_string pb)
      else (case (to_number pa, to_number pb) of
              (Some x, Some y) \<Rightarrow> JNum (to_double (x + y))
            | _ \<Rightarrow> JNaN))"

text \<open>
  The own enumerable properties of a value, in enumeration order: the entries of an
  object, the indices of an array or of a string. \<open>for ... in\<close> over \<open>null\<close>,
  \<open>undefined\<close> or another primitive runs no iteration.
\<close>

fun own_properties :: "jsval \<Rightarrow> js_object" where
  "own_properties (JObj kvs) = kvs"
| "own_properties (JArr xs) = zip (map show_nat [0..<length xs]) xs"
| "own_properties (JStr s) = zip (map show_nat [0..<length s]) (map (\<lambda>c. JStr [c]) s)"
| "own_properties v = []"

definition for_in :: "jsval \<Rightarrow> string list" where
  "for_in v = map fst (own_properties v)"

text \<open>\<open>o[name]\<close> on an object of the model: the property's value, or \<open>undefined\<close>.\<close>

definition lookup :: "js_object \<Rightarrow> string \<Rightarrow> jsval" where
  "lookup o' name = (case map_of o' name of None \<Rightarrow> JUndefined | Some v \<Rightarrow> v)"

text \<open>\<open>v[name]\<close> (and \<open>v.name\<close>) for a value \<open>v\<close> that is neither \<open>null\<close> nor
  \<open>undefined\<close>, for a name that is not \<open>length\<close>.\<close>

definition get :: "jsval \<Rightarrow> string \<Rightarrow> jsval" where
  "get v name = lookup (own_properties v) name"

text \<open>\<open>Object.keys(v)\<close>: raises on \<open>null\<close> and \<open>undefined\<close>.\<close>

definition Object_keys :: "jsval \<Rightarrow> js_error + string list" where
  "Object_keys v = (if v = JUndefined \<or> v = JNull then Inl TypeError else Inr (for_in v))"

text \<open>
  Plain data: the values for which the conversions above are those of the language.
  Their numbers are safe integers, so that \<open>String(n)\<close> is the decimal rendering and
  a sum of two of them is within the range of \<open>to_double\<close>; the keys of an object
  are distinct and stand in enumeration order: the array indices (the decimal numerals
  below \<open>2^32 - 1\<close>) first, ascending, then the other keys; and no object has a
  property \<open>toString\<close> of its own.
\<close>

definition is_digit :: "char \<Rightarrow> bool" where
  "is_digit c = (48 \<le> (of_char c :: nat) \<and> (of_char c :: nat) \<le> 57)"

definition digits_value :: "string \<Rightarrow> nat" where
  "digits_value k = foldl (\<lambda>n c. 10 * n + (of_char c - 48)) 0 k"

definition array_index :: "string \<Rightarrow> bool" where
  "array_index k =
     (k \<noteq> [] \<and> list_all is_digit k
      \<and> (length k = 1 \<or> hd k \<noteq> CHR ''0'')
      \<and> digits_value k < 4294967295)"

definition enumeration_order :: "string list \<Rightarrow> bool" where
  "enumeration_order keys =
     (distinct keys
      \<and> keys = filter array_index keys @ filter (\<lambda>k. \<not> array_index k) keys
      \<and> sorted (map digits_value (filter array_index keys)))"

fun plain :: "jsval \<Rightarrow> bool" where
  "plain (JNum n) = (\<bar>n\<bar> \<le> 9007199254740991)"
| "plain (JArr xs) = list_all plain xs"
| "plain (JObj kvs) =
     (enumeration_order (map fst kvs) \<and> ''toString'' \<notin> set (map fst kvs)
      \<and> list_all plain (map snd kvs))"
| "plain v = True"

section \<open>Objects with a prototype\<close>

text \<open>
  The two stores of the console (\<open>REST_CONFIG\<close> and \<open>frameState\<close>) are module-level
  objects that the providers read and write by computed key, \<open>store[name]\<close>. Such a
  read follows the prototype chain, and such a write can replace the prototype, so a
  store is its own properties together with its prototype. The prototype is a value:
  \<open>null\<close>, a plain object or an array; the empty plain object stands for
  \<open>Object.prototype\<close> itself, which contributes the same members.
\<close>

record js_store =
  own :: js_object
  proto :: jsval

text \<open>The string-keyed members of \<open>Object.prototype\<close> and of \<open>Array.prototype\<close>
  (ECMAScript 2023). All are built-in functions but \<open>__proto__\<close>, an accessor whose
  getter returns the prototype of the object read and whose setter replaces it.\<close>

definition Object_prototype :: "string list" where
  "Object_prototype =
     [''constructor'', ''__defineGetter__'', ''__defineSetter__'', ''hasOwnProperty'',
      ''__lookupGetter__'', ''__lookupSetter__'', ''isPrototypeOf'',
      ''propertyIsEnumerable'', ''toString'', ''valueOf'', ''toLocaleString'']"

definition Array_prototype :: "string list" where
  "Array_prototype =
     [''constructor'', ''at'', ''concat'', ''copyWithin'', ''fill'', ''find'', ''findIndex'',
      ''findLast'', ''findLastIndex'', ''lastIndexOf'', ''pop'', ''push'', ''reverse'',
      ''shift'', ''unshift'', ''slice'', ''sort'', ''splice'', ''includes'', ''indexOf'',
      ''join'', ''keys'', ''entries'', ''values'', ''forEach'', ''filter'', ''flat'',
      ''flatMap'', ''map'', ''every'', ''some'', ''reduce'', ''reduceRight'',
      ''toLocaleString'', ''toString'', ''toReversed'', ''toSorted'', ''toSpliced'', ''with'']"

text \<open>What a read yields: a value of the model, or a built-in function.\<close>

datatype js_read = Data jsval | Native

text \<open>Reading \<open>name\<close> on \<open>Object.prototype\<close>, for an object whose prototype is \<open>p\<close>.\<close>

definition from_Object_prototype :: "jsval \<Rightarrow> string \<Rightarrow> js_read" where
  "from_Object_prototype p name =
     (if name = ''__proto__'' then Data p
      else if name \<in> set Object_prototype then Native
      else Data JUndefined)"

text \<open>Reading \<open>name\<close> through the prototype \<open>p\<close> of an object that has no own property
  of that name.\<close>

fun inherited :: "jsval \<Rightarrow> string \<Rightarrow> js_read" where
  "inherited (JObj kvs) name =
     (case map_of kvs name of
        Some v \<Rightarrow> Data v
      | None \<Rightarrow> from_Object_prototype (JObj kvs) name)"
| "inherited (JArr xs) name =
     (case map_of (own_properties (JArr xs)) name of
        Some v \<Rightarrow> Data v
      | None \<Rightarrow>
          if name = ''length'' then Data (JNum (int (length xs)))
          else if name \<in> set Array_prototype then Native
          else from_Object_prototype (JArr xs) name)"
| "inherited p name = Data JUndefined"

text \<open>\<open>store[name]\<close>.\<close>

definition read :: "js_store \<Rightarrow> string \<Rightarrow> js_read" where
  "read st name =
     (case map_of (own st) name of
        Some v \<Rightarrow> Data v
      | None \<Rightarrow> inherited (proto st) name)"

text \<open>
  \<open>store.name\<close> for the names of the stores' fields (\<open>host\<close>, \<open>authorization\<close>,
  \<open>loaderWidth\<close>, ...). None of them names a built-in member, so the read is a
  value.
\<close>

definition field :: "js_store \<Rightarrow> string \<Rightarrow> jsval" where
  "field st name = (case read st name of Data v \<Rightarrow> v | Native \<Rightarrow> JUndefined)"

text \<open>
  \<open>store[name] = v\<close>. An own property is overwritten. Otherwise the assignment adds
  an own property, unless it reaches the setter of \<open>__proto__\<close> on
  \<open>Object.prototype\<close>: the setter replaces the prototype when \<open>v\<close> is an object or
  \<open>null\<close> and does nothing for another value. The setter is not reached when the
  prototype is \<open>null\<close> or has a property \<open>__proto__\<close> of its own.
\<close>

definition reaches_setter :: "jsval \<Rightarrow> bool" where
  "reaches_setter p =
     (case p of
        JNull \<Rightarrow> False
      | JObj kvs \<Rightarrow> map_of kvs ''__proto__'' = None
      | _ \<Rightarrow> True)"

definition assign :: "string \<Rightarrow> jsval \<Rightarrow> js_store \<Rightarrow> js_store" where
  "assign name v st =
     (if map_of (own st) name = None \<and> name = ''__proto__'' \<and> reaches_setter (proto st)
      then (if typeof v = ''object'' then st\<lparr> proto := v \<rparr> else st)
      else st\<lparr> own := AList.update name v (own st) \<rparr>)"

definition plain_store :: "js_store \<Rightarrow> bool" where
  "plain_store st =
     (distinct (map fst (own st)) \<and> list_all plain (map snd (own st))
      \<and> plain (proto st) \<and> typeof (proto st) = ''object'')"

section \<open>Platform functions\<close>

text \<open>\<open>btoa\<close>: base64 of the Latin-1 bytes of its argument's string. (It raises on a
  code unit above 255; the strings of the model have none.)\<close>

definition b64_char :: "nat \<Rightarrow> char" where
  "b64_char n = ''ABCDEFGHIJKLMNOPQRSTUVWXYZabcdefghijklmnopqrstuvwxyz0123456789+/'' ! n"

fun b64_bytes :: "nat list \<Rightarrow> string" where
  "b64_bytes [] = []"
| "b64_bytes [a] = [b64_char (a div 4), b64_char ((a mod 4) * 16), CHR ''='', CHR ''='']"
| "b64_bytes [a, b] =
     [b64_char (a div 4), b64_char ((a mod 4) * 16 + b div 16), b64_char ((b mod 16) * 4), CHR ''='']"
| "b64_bytes (a # b # c # rest) =
     [b64_char (a div 4), b64_char ((a mod 4) * 16 + b div 16),
      b64_char ((b mod 16) * 4 + c div 64), b64_char (c mod 64)] @ b64_bytes rest"

definition btoa :: "jsval \<Rightarrow> string" where
  "btoa v = b64_bytes (map of_char (to_string v))"

text \<open>
  \<open>URLSearchParams\<close>: \<open>append\<close> adds a pair of strings, \<open>toString\<close> is the
  \<open>application/x-www-form-urlencoded\<close> serializer over the UTF-8 bytes: letters,
  digits and \<open>* - . _\<close> stay, a space becomes \<open>+\<close>, every other byte becomes
  \<open>%XX\<close>.
\<close>

definition utf8 :: "char \<Rightarrow> nat list" where
  "utf8 c = (let n = of_char c in if n < 128 then [n] else [192 + n div 64, 128 + n mod 64])"

definition hex_char :: "nat \<Rightarrow> char" where
  "hex_char n = ''0123456789ABCDEF'' ! n"

definition form_byte :: "nat \<Rightarrow> string" where
  "form_byte b =
     (if b = 32 then ''+''
      else if (48 \<le> b \<and> b \<le> 57) \<or> (65 \<le> b \<and> b \<le> 90) \<or> (97 \<le> b \<and> b \<le> 122)
              \<or> b = 42 \<or> b = 45 \<or> b = 46 \<or> b = 95
      then [char_of b]
      else [CHR ''%'', hex_char (b div 16), hex_char (b mod 16)])"

definition form_encode :: "string \<Rightarrow> string" where
  "form_encode s = concat (map form_byte (concat (map utf8 s)))"

type_synonym url_search_params = "(string \<times> string) list"

definition append_param :: "string \<Rightarrow> jsval \<Rightarrow> url_search_params \<Rightarrow> url_search_params" where
  "append_param name v query = query @ [(name, to_string v)]"

definition toString :: "url_search_params \<Rightarrow> string" where
  "toString query = join ''&'' (map (\<lambda>(n, v). form_encode n @ ''='' @ form_encode v) query)"

section \<open>The view frame: state\<close>

text \<open>
  \<open>view-frame-provider.js\<close> keeps one module-level object \<open>frameState\<close> and one
  timer handle \<open>cacheMap.loaderTimeout\<close>. The fields the loader computes with are
  numbers (\<open>loaderWidth\<close>, \<open>loaderStep\<close>) and a string (\<open>loaderUnit\<close>); the others
  hold whatever the callers pass.
\<close>

record breadcrumb =
  redirect :: jsval
  displayText :: jsval

record action_button =
  ab_styles :: string
  ab_displayText :: jsval
  ab_redirect :: jsval
  ab_target :: jsval
  ab_endpoint :: jsval

record frame_state =
  sessionTheme :: jsval
  frameTitle :: jsval
  routeNext :: jsval
  breadcrumbs :: "breadcrumb list"
  serverHost :: jsval
  actionButtons :: "action_button list"
  loaderWidth :: int
  loaderStep :: int
  loaderUnit :: string

definition frameState :: frame_state where
  "frameState = \<lparr>
     sessionTheme = JStr ''#FFFFFF'',
     frameTitle = JStr '''',
     routeNext = JStr '''',
     breadcrumbs = [],
     serverHost = JStr '''',
     actionButtons = [],
     loaderWidth = 0,
     loaderStep = 50,
     loaderUnit = ''0vw'' \<rparr>"

text \<open>The template literal \<open>`${state.loaderWidth}vw`\<close>.\<close>

definition vw :: "int \<Rightarrow> string" where
  "vw n = show_int n @ ''vw''"

text \<open>
  The world of the module: the frame state, the timer handle of \<open>cacheMap\<close>, and the
  host's timer queue. \<open>setTimeout\<close> returns a fresh handle and queues the callback
  with its due time; \<open>clearTimeout\<close> removes the handle's entry from the queue.
  The only callback the module ever queues is \<open>loaderTimeoutCallback\<close>.
\<close>

record world =
  frame :: frame_state
  loaderTimeout :: "nat option"
  timers :: "(nat \<times> nat) list"
  nextHandle :: nat
  now :: nat

definition world0 :: world where
  "world0 = \<lparr> frame = frameState, loaderTimeout = None, timers = [], nextHandle = 1, now = 0 \<rparr>"

definition setTimeout :: "nat \<Rightarrow> world \<Rightarrow> nat \<times> world" where
  "setTimeout delay w =
     (nextHandle w,
      w\<lparr> timers := timers w @ [(nextHandle w, now w + delay)], nextHandle := nextHandle w + 1 \<rparr>)"

definition clearTimeout :: "nat option \<Rightarrow> world \<Rightarrow> world" where
  "clearTimeout h w =
     (case h of None \<Rightarrow> w | Some i \<Rightarrow> w\<lparr> timers := filter (\<lambda>t. fst t \<noteq> i) (timers w) \<rparr>)"

text \<open>Modelled from the spec: \<open>_.isNil\<close> of \<open>lib/core-utils.js\<close>, which is not among
  the source files. The spec reads its use as "no reset timer is already pending":
  the handle is \<open>null\<close>.\<close>

definition isNil :: "nat option \<Rightarrow> bool" where
  "isNil h = (h = None)"

section \<open>The view frame: operations\<close>

definition loaderTimeoutCallback :: "world \<Rightarrow> world" where
  "loaderTimeoutCallback w =
     (let state = frame w;
          state = state\<lparr> loaderStep := 0 \<rparr>;
          state = state\<lparr> loaderWidth := 0 \<rparr>;
          state = state\<lparr> loaderUnit := vw (loaderWidth state) \<rparr>;
          w = w\<lparr> frame := state \<rparr>;
          w = clearTimeout (loaderTimeout w) w
      in w\<lparr> loaderTimeout := None \<rparr>)"

definition setSessionTheme :: "jsval \<Rightarrow> frame_state \<Rightarrow> frame_state" where
  "setSessionTheme color s = s\<lparr> sessionTheme := color \<rparr>"

definition setTitle :: "jsval \<Rightarrow> frame_state \<Rightarrow> frame_state" where
  "setTitle title s = s\<lparr> frameTitle := title \<rparr>"

text \<open>A default parameter: the default stands in when the argument is \<open>undefined\<close>.\<close>

definition default_param :: "jsval \<Rightarrow> jsval \<Rightarrow> jsval" where
  "default_param arg d = (if arg = JUndefined then d else arg)"

text \<open>
  \<open>addBreadcrumb(redirect, displayText = null)\<close>. The test \<open>_.isEmpty\<close> comes from
  \<open>lib/core-utils.js\<close>, which is not among the source files; it is a parameter of
  the model.
\<close>

definition addBreadcrumb :: "(jsval \<Rightarrow> bool) \<Rightarrow> jsval \<Rightarrow> jsval \<Rightarrow> frame_state \<Rightarrow> frame_state" where
  "addBreadcrumb isEmpty redirect' displayText' s =
     (let displayText' = default_param displayText' JNull;
          displayText' = (if isEmpty displayText' then redirect' else displayText');
          s = s\<lparr> breadcrumbs := breadcrumbs s @ [\<lparr> redirect = redirect', displayText = displayText' \<rparr>] \<rparr>
      in s\<lparr> routeNext := (if length (breadcrumbs s) \<ge> 2 then redirect' else JStr '''') \<rparr>)"

definition clearBreadcrumbs :: "frame_state \<Rightarrow> frame_state" where
  "clearBreadcrumbs s = (s\<lparr> breadcrumbs := [] \<rparr>)\<lparr> routeNext := JStr '''' \<rparr>"

definition getBreadcrumbs :: "frame_state \<Rightarrow> breadcrumb list" where
  "getBreadcrumbs s = breadcrumbs s"

definition hasBreadcrumbs :: "frame_state \<Rightarrow> bool" where
  "hasBreadcrumbs s = (length (breadcrumbs s) \<ge> 1)"

text \<open>\<open>Array.prototype.pop\<close>: the last element, or \<open>undefined\<close> (here \<open>None\<close>) on an
  empty array, which it leaves empty.\<close>

definition pop :: "'a list \<Rightarrow> 'a option \<times> 'a list" where
  "pop xs = (if xs = [] then (None, []) else (Some (last xs), butlast xs))"

text \<open>
  \<open>previousRoute(shouldPop = true)\<close>. The result pairs the outcome (the returned value,
  or the error raised) with the state the call leaves behind: the first \<open>pop\<close> has
  already happened when reading \<open>['redirect']\<close> of \<open>undefined\<close> raises.
\<close>

definition previousRoute :: "jsval \<Rightarrow> frame_state \<Rightarrow> (js_error + jsval) \<times> frame_state" where
  "previousRoute shouldPop s =
     (let shouldPop = default_param shouldPop (JBool True) in
      if shouldPop = JBool False then (Inr (routeNext s), s)
      else if length (breadcrumbs s) = 0 then
        (let s = s\<lparr> routeNext := JStr '''' \<rparr> in (Inr (routeNext s), s))
      else
        (let s = s\<lparr> breadcrumbs := snd (pop (breadcrumbs s)) \<rparr>;
             (top, rest) = pop (breadcrumbs s);
             s = s\<lparr> breadcrumbs := rest \<rparr>
         in case top of
              None \<Rightarrow> (Inl TypeError, s)
            | Some b \<Rightarrow> (let s = s\<lparr> routeNext := redirect b \<rparr> in (Inr (routeNext s), s))))"

text \<open>\<open>setLoaderSteps(steps)\<close>, for an integer number of steps.\<close>

definition setLoaderSteps :: "int \<Rightarrow> frame_state \<Rightarrow> frame_state" where
  "setLoaderSteps steps s =
     (if loaderWidth s = 0 \<and> steps \<ge> 1 then
        (let s = s\<lparr> loaderStep := \<lceil>100 / real_of_int steps\<rceil> \<rparr>;
             s = s\<lparr> loaderWidth := 1 \<rparr>
         in s\<lparr> loaderUnit := vw (loaderWidth s) \<rparr>)
      else s)"

definition incrementLoader :: "world \<Rightarrow> world" where
  "incrementLoader w =
     (let width = min (loaderWidth (frame w) + loaderStep (frame w)) 100;
          w = w\<lparr> frame := (frame w)\<lparr> loaderWidth := width \<rparr> \<rparr>;
          w = w\<lparr> frame := (frame w)\<lparr> loaderUnit := vw (loaderWidth (frame w)) \<rparr> \<rparr>
      in if width \<ge> 100 \<and> isNil (loaderTimeout w) then
           (let (h, w) = setTimeout 500 w in w\<lparr> loaderTimeout := Some h \<rparr>)
         else w)"

definition resetLoader :: "frame_state \<Rightarrow> frame_state" where
  "resetLoader s =
     (let s = s\<lparr> loaderStep := 0 \<rparr>;
          s = s\<lparr> loaderWidth := 0 \<rparr>
      in s\<lparr> loaderUnit := vw (loaderWidth s) \<rparr>)"

definition getState :: "frame_state \<Rightarrow> frame_state" where
  "getState s = s"

text \<open>
  \<open>addAction(displayText, redirect = '!#/', styles = 'success create', target =
  'object', endpoint = '!#/')\<close>. The style is interpolated into a template literal;
  it is the string that the factory's declaration (\<open>styles:string=\<close>) says, or
  \<open>None\<close> when the argument is omitted.
\<close>

definition addAction ::
  "jsval \<Rightarrow> jsval \<Rightarrow> string option \<Rightarrow> jsval \<Rightarrow> jsval \<Rightarrow> frame_state \<Rightarrow> frame_state" where
  "addAction displayText' redirect' styles target endpoint s =
     (let redirect' = default_param redirect' (JStr ''!#/'');
          styles = (case styles of None \<Rightarrow> ''success create'' | Some c \<Rightarrow> c);
          target = default_param target (JStr ''object'');
          endpoint = default_param endpoint (JStr ''!#/'')
      in s\<lparr> actionButtons := actionButtons s @
           [\<lparr> ab_styles = ''btn '' @ styles, ab_displayText = displayText',
              ab_redirect = redirect', ab_target = target, ab_endpoint = endpoint \<rparr>] \<rparr>)"

definition getActions :: "frame_state \<Rightarrow> action_button list" where
  "getActions s = actionButtons s"

definition clearActions :: "frame_state \<Rightarrow> frame_state" where
  "clearActions s = s\<lparr> actionButtons := [] \<rparr>"

text \<open>
  Time passing. \<open>elapse d\<close> advances the clock by \<open>d\<close> and runs, in queue order,
  every queued callback that is due; a callback that runs leaves the queue first (it is
  one-shot).
\<close>

definition fire :: "nat \<times> nat \<Rightarrow> world \<Rightarrow> world" where
  "fire t w =
     (if t \<in> set (timers w) \<and> snd t \<le> now w
      then loaderTimeoutCallback (w\<lparr> timers := removeAll t (timers w) \<rparr>)
      else w)"

definition elapse :: "nat \<Rightarrow> world \<Rightarrow> world" where
  "elapse d w = (let w = w\<lparr> now := now w + d \<rparr> in fold fire (timers w) w)"

text \<open>
  The calls of the view-frame factory (and the passing of time) as events, so that
  sequences of calls can be run from the module's initial world.
\<close>

datatype event =
    SetSessionTheme jsval
  | SetTitle jsval
  | AddAction jsval jsval "string option" jsval jsval
  | ClearActions
  | AddBreadcrumb jsval jsval
  | ClearBreadcrumbs
  | PreviousRoute jsval
  | SetLoaderSteps int
  | IncrementLoader
  | ResetLoader
  | Elapse nat

fun step :: "(jsval \<Rightarrow> bool) \<Rightarrow> event \<Rightarrow> world \<Rightarrow> world" where
  "step isEmpty (SetSessionTheme c) w = w\<lparr> frame := setSessionTheme c (frame w) \<rparr>"
| "step isEmpty (SetTitle t) w = w\<lparr> frame := setTitle t (frame w) \<rparr>"
| "step isEmpty (AddAction d r s t e) w = w\<lparr> frame := addAction d r s t e (frame w) \<rparr>"
| "step isEmpty ClearActions w = w\<lparr> frame := clearActions (frame w) \<rparr>"
| "step isEmpty (AddBreadcrumb r d) w = w\<lparr> frame := addBreadcrumb isEmpty r d (frame w) \<rparr>"
| "step isEmpty ClearBreadcrumbs w = w\<lparr> frame := clearBreadcrumbs (frame w) \<rparr>"
| "step isEmpty (PreviousRoute p) w = w\<lparr> frame := snd (previousRoute p (frame w)) \<rparr>"
| "step isEmpty (SetLoaderSteps n) w = w\<lparr> frame := setLoaderSteps n (frame w) \<rparr>"
| "step isEmpty IncrementLoader w = incrementLoader w"
| "step isEmpty ResetLoader w = w\<lparr> frame := resetLoader (frame w) \<rparr>"
| "step isEmpty (Elapse d) w = elapse d w"

definition run :: "(jsval \<Rightarrow> bool) \<Rightarrow> event list \<Rightarrow> world \<Rightarrow> world" where
  "run isEmpty evs w = fold (step isEmpty) evs w"

text \<open>
  The loader's invariant: the width lies between 0 and 100, the step is not negative,
  \<open>loaderUnit\<close> renders \<open>loaderWidth\<close>; and the timer handle is set exactly when
  one callback is queued, due at most 500 time units ahead.
\<close>

definition timer_ok :: "world \<Rightarrow> bool" where
  "timer_ok w =
     (case loaderTimeout w of
        None \<Rightarrow> timers w = []
      | Some h \<Rightarrow> length (timers w) = 1 \<and> fst (hd (timers w)) = h
                  \<and> snd (hd (timers w)) \<le> now w + 500)"

definition loader_ok :: "frame_state \<Rightarrow> bool" where
  "loader_ok s = (0 \<le> loaderWidth s \<and> loaderWidth s \<le> 100 \<and> 0 \<le> loaderStep s
                  \<and> loaderUnit s = vw (loaderWidth s))"

definition world_ok :: "world \<Rightarrow> bool" where
  "world_ok w = (loader_ok (frame w) \<and> timer_ok w)"

text \<open>
  Whether a callback of the queue is due once \<open>d\<close> more time units have passed: then
  \<open>elapse d\<close> runs it.
\<close>

definition callback_due :: "nat \<Rightarrow> world \<Rightarrow> bool" where
  "callback_due d w = list_ex (\<lambda>t. snd t \<le> now w + d) (timers w)"

section \<open>The REST provider\<close>

text \<open>
  The configuration store \<open>REST_CONFIG\<close> is a module-level object literal;
  \<open>initialize\<close> and the setters write values of any type into it.
\<close>

definition REST_CONFIG :: js_store where
  "REST_CONFIG =
     \<lparr> own = [(''host'', JStr ''''),
              (''authorization'', JNull),
              (''accept'', JStr ''application/json''),
              (''contentType'', JStr ''application/json'')],
       proto = JObj [] \<rparr>"

text \<open>
  The request descriptor. \<open>data\<close> and \<open>headers\<close> are \<open>None\<close> when the object has
  no such property; \<open>headers\<close> starts as the object literal \<open>{}\<close> and is written
  by computed key, so it is an object with its prototype. Its own properties are
  listed in the order in which they were added.
\<close>

record request =
  method' :: jsval
  url :: jsval
  data :: "jsval option"
  headers :: "js_store option"
  withCredentials :: bool

definition empty_object :: js_store where
  "empty_object = \<lparr> own = [], proto = JObj [] \<rparr>"

text \<open>\<open>request.headers[name] = v\<close>.\<close>

definition set_header :: "string \<Rightarrow> jsval \<Rightarrow> request \<Rightarrow> request" where
  "set_header name v request = request\<lparr> headers := map_option (assign name v) (headers request) \<rparr>"

text \<open>The loop \<open>Object.keys(options.headers).forEach(...)\<close>: each caller header is
  written into \<open>request.headers\<close>.\<close>

definition forEach_header :: "jsval \<Rightarrow> string list \<Rightarrow> request \<Rightarrow> request" where
  "forEach_header hs keys request = fold (\<lambda>item. set_header item (get hs item)) keys request"

text \<open>The loop \<open>for (let param in options.query)\<close>: every entry whose value is not
  exactly \<open>null\<close> is appended to a fresh \<open>URLSearchParams\<close>.\<close>

definition build_query :: "jsval \<Rightarrow> url_search_params" where
  "build_query q =
     fold (\<lambda>param query.
             if get q param \<noteq> JNull then append_param param (get q param) query else query)
       (for_in q) []"

text \<open>
  \<open>configure(options)\<close>, reading the store \<open>cfg\<close>, one definition per statement
  of the source. Reading a property of \<open>options\<close> raises when \<open>options\<close> is
  \<open>null\<close> or \<open>undefined\<close>, and \<open>Object.keys\<close> raises on \<open>null\<close> (whose
  \<open>typeof\<close> is \<open>'object'\<close>).
\<close>

definition initial_request :: "js_store \<Rightarrow> jsval \<Rightarrow> request" where
  "initial_request cfg options =
     \<lparr> method' = get options ''method'',
       url = js_or (get options ''url'') (js_add (field cfg ''host'') (get options ''resource'')),
       data = None,
       headers = Some empty_object,
       withCredentials = False \<rparr>"

definition resolve_url :: "js_store \<Rightarrow> jsval \<Rightarrow> request \<Rightarrow> request" where
  "resolve_url cfg options request =
     (if typeof (get options ''url'') = ''string''
      then request\<lparr> url := get options ''url'' \<rparr>
      else request\<lparr> url := js_add (field cfg ''host'')
              (if typeof (get options ''endpoint'') = ''string''
               then get options ''endpoint'' else get options ''resource'') \<rparr>)"

definition copy_data :: "jsval \<Rightarrow> request \<Rightarrow> request" where
  "copy_data options request =
     (if typeof (get options ''data'') = ''object''
      then request\<lparr> data := Some (get options ''data'') \<rparr> else request)"

definition store_authorization :: "js_store \<Rightarrow> request \<Rightarrow> request" where
  "store_authorization cfg request =
     (if typeof (field cfg ''authorization'') = ''string''
      then set_header ''Authorization'' (field cfg ''authorization'')
             (request\<lparr> withCredentials := True \<rparr>)
      else request)"

definition store_accept :: "js_store \<Rightarrow> request \<Rightarrow> request" where
  "store_accept cfg request =
     (if typeof (field cfg ''accept'') = ''string''
      then set_header ''Accept'' (field cfg ''accept'') request else request)"

definition store_contentType :: "js_store \<Rightarrow> request \<Rightarrow> request" where
  "store_contentType cfg request =
     (if typeof (field cfg ''contentType'') = ''string''
      then set_header ''Content-Type'' (field cfg ''contentType'') request else request)"

definition caller_headers :: "jsval \<Rightarrow> request \<Rightarrow> js_error + request" where
  "caller_headers options request =
     (if typeof (get options ''headers'') = ''object''
      then (case Object_keys (get options ''headers'') of
              Inl e \<Rightarrow> Inl e
            | Inr keys \<Rightarrow> Inr (forEach_header (get options ''headers'') keys request))
      else Inr request)"

definition append_query :: "jsval \<Rightarrow> request \<Rightarrow> request" where
  "append_query options request =
     (if typeof (get options ''query'') = ''object''
      then (let query = build_query (get options ''query'')
            in request\<lparr> url := JStr ((to_string (url request) @ ''?'') @ toString query) \<rparr>)
      else request)"

definition delete_empty_headers :: "request \<Rightarrow> request" where
  "delete_empty_headers request =
     (if (case headers request of None \<Rightarrow> 0 | Some h \<Rightarrow> length (map fst (own h))) \<le> 0
      then request\<lparr> headers := None \<rparr> else request)"

definition configure :: "js_store \<Rightarrow> jsval \<Rightarrow> js_error + request" where
  "configure cfg options =
     (if options = JUndefined \<or> options = JNull then Inl TypeError
      else
        let request = initial_request cfg options;
            request = resolve_url cfg options request;
            request = copy_data options request;
            request = store_authorization cfg request;
            request = store_accept cfg request;
            request = store_contentType cfg request
        in case caller_headers options request of
             Inl e \<Rightarrow> Inl e
           | Inr request \<Rightarrow>
               (let request = append_query options request;
                    request = delete_empty_headers request
                in Inr request))"

text \<open>Modelled from the spec: \<open>_.isDefined\<close> of \<open>lib/utility.js\<close> (and of
  \<open>lib/core-utils.js\<close>), which is not among the source files. The spec reads its use
  as "the key is already a recognized configuration field", and counts
  \<open>authorization\<close> (initially \<open>null\<close>) and \<open>host\<close> (initially empty) as
  recognized: everything but \<open>undefined\<close> is defined, a built-in function too.\<close>

definition isDefined :: "js_read \<Rightarrow> bool" where
  "isDefined r = (case r of Data v \<Rightarrow> v \<noteq> JUndefined | Native \<Rightarrow> True)"

text \<open>
  \<open>RestProvider.initialize(options)\<close>: the loop \<open>for (let name in options)\<close> over the
  keys of \<open>options\<close>, reading \<open>REST_CONFIG[name]\<close> and \<open>options[name]\<close> and
  writing \<open>REST_CONFIG[name]\<close>.
\<close>

fun RestProvider_initialize_loop :: "string list \<Rightarrow> jsval \<Rightarrow> js_store \<Rightarrow> js_store" where
  "RestProvider_initialize_loop [] options cfg = cfg"
| "RestProvider_initialize_loop (name # names) options cfg =
     (if \<not> isDefined (read cfg name) then RestProvider_initialize_loop names options cfg
      else if name = ''authorization''
      then RestProvider_initialize_loop names options
             (assign name (js_add (JStr ''Basic '') (JStr (btoa (get options name)))) cfg)
      else RestProvider_initialize_loop names options (assign name (get options name) cfg))"

definition RestProvider_initialize :: "jsval \<Rightarrow> js_store \<Rightarrow> js_store" where
  "RestProvider_initialize options cfg = RestProvider_initialize_loop (for_in options) options cfg"

definition setHost :: "jsval \<Rightarrow> js_store \<Rightarrow> js_store" where
  "setHost host cfg = assign ''host'' host cfg"

definition setBasicAuth :: "jsval \<Rightarrow> jsval \<Rightarrow> js_store \<Rightarrow> js_store" where
  "setBasicAuth username password cfg =
     assign ''authorization''
       (js_add (JStr ''Basic '')
          (JStr (btoa (js_add (js_add username (JStr '':'')) (js_or password (JStr ''''))))))
       cfg"

definition setAcceptType :: "jsval \<Rightarrow> js_store \<Rightarrow> js_store" where
  "setAcceptType type cfg = assign ''accept'' type cfg"

definition setContentType :: "jsval \<Rightarrow> js_store \<Rightarrow> js_store" where
  "setContentType type cfg = assign ''contentType'' type cfg"

section \<open>The view-frame provider's initializer\<close>

text \<open>
  \<open>ViewFrameProvider.initialize(options)\<close> reads and writes \<open>frameState\<close> by
  computed key and with values of any type, so it is modelled on the object itself:
  \<open>frame_store s\<close> is the object \<open>frameState\<close> when its fields hold the state \<open>s\<close>
  of the record above.
\<close>

definition breadcrumb_object :: "breadcrumb \<Rightarrow> jsval" where
  "breadcrumb_object b = JObj [(''redirect'', redirect b), (''displayText'', displayText b)]"

definition action_button_object :: "action_button \<Rightarrow> jsval" where
  "action_button_object a =
     JObj [(''styles'', JStr (ab_styles a)), (''displayText'', ab_displayText a),
           (''redirect'', ab_redirect a), (''target'', ab_target a), (''endpoint'', ab_endpoint a)]"

definition frame_store :: "frame_state \<Rightarrow> js_store" where
  "frame_store s =
     \<lparr> own = [(''sessionTheme'', sessionTheme s),
              (''frameTitle'', frameTitle s),
              (''routeNext'', routeNext s),
              (''breadcrumbs'', JArr (map breadcrumb_object (breadcrumbs s))),
              (''serverHost'', serverHost s),
              (''actionButtons'', JArr (map action_button_object (actionButtons s))),
              (''loaderWidth'', JNum (loaderWidth s)),
              (''loaderStep'', JNum (loaderStep s)),
              (''loaderUnit'', JStr (loaderUnit s))],
       proto = JObj [] \<rparr>"

fun ViewFrameProvider_initialize_loop :: "string list \<Rightarrow> jsval \<Rightarrow> js_store \<Rightarrow> js_store" where
  "ViewFrameProvider_initialize_loop [] options st = st"
| "ViewFrameProvider_initialize_loop (name # names) options st =
     (if \<not> isDefined (read st name) then ViewFrameProvider_initialize_loop names options st
      else ViewFrameProvider_initialize_loop names options (assign name (get options name) st))"

definition ViewFrameProvider_initialize :: "jsval \<Rightarrow> js_store \<Rightarrow> js_store" where
  "ViewFrameProvider_initialize options st =
     ViewFrameProvider_initialize_loop (for_in options) options st"

section \<open>Auxiliary definitions\<close>

text \<open>
  Names for intermediate values of \<open>configure\<close>. They serve the lemmas below; the
  theorems about the claims spell their statements out.
\<close>

definition base_url :: "js_store \<Rightarrow> jsval \<Rightarrow> jsval" where
  "base_url cfg options =
     (if typeof (get options ''url'') = ''string'' then get options ''url''
      else if typeof (get options ''endpoint'') = ''string''
      then js_add (field cfg ''host'') (get options ''endpoint'')
      else js_add (field cfg ''host'') (get options ''resource''))"

definition store_request :: "js_store \<Rightarrow> jsval \<Rightarrow> request" where
  "store_request cfg options =
     store_contentType cfg (store_accept cfg (store_authorization cfg
       (copy_data options (resolve_url cfg options (initial_request cfg options)))))"

section \<open>Properties of the view frame\<close>

lemma show_nat_digit: "n < 10 \<Longrightarrow> show_nat n = [digit_char n]"
  by (simp add: show_nat.simps)

lemma vw_0: "vw 0 = ''0vw''"
  by (simp add: vw_def show_int_def show_nat_digit digit_char_def)

lemma vw_1: "vw 1 = ''1vw''"
  by (simp add: vw_def show_int_def show_nat_digit digit_char_def)

lemma vw_50: "vw 50 = ''50vw''"
  by (simp add: vw_def show_int_def show_nat.simps [of 50] show_nat_digit digit_char_def)

text \<open>
  Claim C9. The module's initial \<open>frameState\<close> has \<open>loaderWidth = 0\<close> and
  \<open>loaderStep = 50\<close>, and no timer is pending; a single \<open>incrementLoader()\<close> from it,
  with no \<open>setLoaderSteps\<close> or \<open>resetLoader\<close> before, leaves \<open>loaderWidth = 50\<close>
  and \<open>loaderUnit = '50vw'\<close>.
\<close>

theorem initial_step_is_50:
  "loaderWidth (frame world0) = 0
   \<and> loaderStep (frame world0) = 50
   \<and> loaderWidth (frame (incrementLoader world0)) = 50
   \<and> loaderStep (frame (incrementLoader world0)) = 50
   \<and> loaderUnit (frame (incrementLoader world0)) = ''50vw''"
  by (simp add: world0_def frameState_def incrementLoader_def Let_def vw_50)

lemma ceil_lo: "(n::int) \<ge> 1 \<Longrightarrow> \<lceil>100 / real_of_int n\<rceil> \<ge> 1"
  by (simp add: pos_less_divide_eq)

lemma previousRoute_loader:
  "loaderWidth (snd (previousRoute p s)) = loaderWidth s
   \<and> loaderStep (snd (previousRoute p s)) = loaderStep s
   \<and> loaderUnit (snd (previousRoute p s)) = loaderUnit s"
  by (simp add: previousRoute_def Let_def pop_def split: option.splits prod.splits)

lemma loader_ok_frame_ops:
  assumes "loader_ok s"
  shows "loader_ok (setSessionTheme c s)" "loader_ok (setTitle t s)"
    "loader_ok (addAction d r st tg e s)" "loader_ok (clearActions s)"
    "loader_ok (addBreadcrumb isEmpty r d s)" "loader_ok (clearBreadcrumbs s)"
    "loader_ok (snd (previousRoute p s))" "loader_ok (resetLoader s)"
  using assms
  by (simp_all add: loader_ok_def setSessionTheme_def setTitle_def addAction_def clearActions_def
      addBreadcrumb_def clearBreadcrumbs_def previousRoute_loader resetLoader_def Let_def)

lemma loader_ok_setLoaderSteps:
  assumes "loader_ok s"
  shows "loader_ok (setLoaderSteps n s)"
proof (cases "loaderWidth s = 0 \<and> n \<ge> 1")
  case True
  then have "1 \<le> \<lceil>100 / real_of_int n\<rceil>" by (simp add: ceil_lo)
  then have "0 \<le> \<lceil>100 / real_of_int n\<rceil>" by linarith
  with True show ?thesis
    by (simp add: loader_ok_def setLoaderSteps_def Let_def del: zero_le_ceiling)
next
  case False
  with assms show ?thesis by (auto simp: setLoaderSteps_def)
qed

lemma timer_ok_frame [simp]: "timer_ok (w\<lparr> frame := f \<rparr>) = timer_ok w"
  by (simp add: timer_ok_def split: option.splits)

lemma world_ok_incrementLoader: "world_ok w \<Longrightarrow> world_ok (incrementLoader w)"
  by (auto simp: world_ok_def loader_ok_def timer_ok_def incrementLoader_def Let_def isNil_def
      setTimeout_def split: option.splits prod.splits)

lemma loader_ok_callback: "loader_ok (frame (loaderTimeoutCallback w))"
  by (simp add: loader_ok_def loaderTimeoutCallback_def clearTimeout_def Let_def
      split: option.splits)

lemma elapse_no_timer:
  "timers w = [] \<Longrightarrow> elapse d w = w\<lparr> now := now w + d \<rparr>"
  by (simp add: elapse_def)

lemma elapse_one_timer:
  "timers w = [(h, due)] \<Longrightarrow>
   elapse d w =
     (if due \<le> now w + d
      then loaderTimeoutCallback (w\<lparr> now := now w + d, timers := [] \<rparr>)
      else w\<lparr> now := now w + d \<rparr>)"
  by (simp add: elapse_def fire_def)

lemma callback_clears:
  "timers w = [] \<Longrightarrow>
   timers (loaderTimeoutCallback w) = [] \<and> loaderTimeout (loaderTimeoutCallback w) = None"
  by (simp add: loaderTimeoutCallback_def clearTimeout_def Let_def split: option.splits)

lemma world_ok_elapse:
  assumes "world_ok w"
  shows "world_ok (elapse d w)"
proof (cases "loaderTimeout w")
  case None
  with assms have "timers w = []" by (simp add: world_ok_def timer_ok_def)
  with assms None show ?thesis
    by (simp add: elapse_no_timer world_ok_def timer_ok_def)
next
  case (Some h)
  with assms have "length (timers w) = 1" and "fst (hd (timers w)) = h"
    and "snd (hd (timers w)) \<le> now w + 500"
    by (simp_all add: world_ok_def timer_ok_def)
  then obtain due where t: "timers w = [(h, due)]" and d: "due \<le> now w + 500"
    by (cases "timers w") auto
  show ?thesis
  proof (cases "due \<le> now w + d")
    case True
    have "timers (w\<lparr> now := now w + d, timers := [] \<rparr>) = []" by simp
    from callback_clears [OF this] True t show ?thesis
      by (simp add: elapse_one_timer world_ok_def timer_ok_def loader_ok_callback)
  next
    case False
    with assms Some t d show ?thesis
      by (simp add: elapse_one_timer world_ok_def timer_ok_def)
  qed
qed

lemma world_ok_step: "world_ok w \<Longrightarrow> world_ok (step isEmpty e w)"
proof (cases e)
  case IncrementLoader
  then show "world_ok w \<Longrightarrow> ?thesis" by (simp add: world_ok_incrementLoader)
next
  case (Elapse d)
  then show "world_ok w \<Longrightarrow> ?thesis" by (simp add: world_ok_elapse)
qed (simp_all add: world_ok_def loader_ok_frame_ops loader_ok_setLoaderSteps)

lemma world_ok_run: "world_ok w \<Longrightarrow> world_ok (run isEmpty evs w)"
  unfolding run_def by (induction evs arbitrary: w) (simp_all add: world_ok_step)

lemma world_ok_world0: "world_ok world0"
  by (simp add: world_ok_def loader_ok_def timer_ok_def world0_def frameState_def vw_0)

lemma incrementLoader_mono:
  "loader_ok (frame w) \<Longrightarrow> loaderWidth (frame w) \<le> loaderWidth (frame (incrementLoader w))"
  by (simp add: loader_ok_def incrementLoader_def Let_def setTimeout_def split: prod.splits)

lemma incrementLoader_timer:
  assumes "world_ok w" and "loaderWidth (frame (incrementLoader w)) = 100"
  shows "\<exists>h due. loaderTimeout (incrementLoader w) = Some h
           \<and> timers (incrementLoader w) = [(h, due)]
           \<and> due \<le> now (incrementLoader w) + 500
           \<and> (loaderTimeout w = None \<longrightarrow> due = now (incrementLoader w) + 500)
           \<and> (loaderTimeout w \<noteq> None \<longrightarrow> timers (incrementLoader w) = timers w)"
proof (cases "loaderTimeout w")
  case None
  with assms have "timers w = []" by (simp add: world_ok_def timer_ok_def)
  with assms None show ?thesis
    by (simp add: incrementLoader_def Let_def isNil_def setTimeout_def split: if_splits)
next
  case (Some h)
  with assms have "length (timers w) = 1" and "fst (hd (timers w)) = h"
    and "snd (hd (timers w)) \<le> now w + 500"
    by (simp_all add: world_ok_def timer_ok_def)
  then obtain due where "timers w = [(h, due)]" and "due \<le> now w + 500"
    by (cases "timers w") auto
  with Some show ?thesis
    by (simp add: incrementLoader_def Let_def isNil_def)
qed

lemma elapse_resets:
  assumes "timers w = [(h, due)]" and "due \<le> now w + d"
  shows "loaderWidth (frame (elapse d w)) = 0 \<and> loaderStep (frame (elapse d w)) = 0
         \<and> loaderUnit (frame (elapse d w)) = ''0vw''
         \<and> loaderTimeout (elapse d w) = None \<and> timers (elapse d w) = []"
  using assms
  by (simp add: elapse_one_timer loaderTimeoutCallback_def clearTimeout_def Let_def vw_0
      split: option.splits)

lemma elapse_too_early:
  assumes "timers w = [(h, due)]" and "now w + d < due"
  shows "frame (elapse d w) = frame w"
  using assms by (simp add: elapse_one_timer)

lemma step_lowers:
  assumes ok: "world_ok w"
    and low: "loaderWidth (frame (step isEmpty e w)) < loaderWidth (frame w)"
  shows "loaderWidth (frame (step isEmpty e w)) = 0
         \<and> (e = ResetLoader \<or> (\<exists>d. e = Elapse d \<and> callback_due d w))"
proof (cases e)
  case (SetLoaderSteps n)
  with low show ?thesis
    by (simp add: setLoaderSteps_def Let_def split: if_splits)
next
  case IncrementLoader
  from ok have "loader_ok (frame w)" by (simp add: world_ok_def)
  from incrementLoader_mono [OF this] low IncrementLoader show ?thesis by simp
next
  case ResetLoader
  then show ?thesis by (simp add: resetLoader_def Let_def)
next
  case (Elapse d)
  show ?thesis
  proof (cases "loaderTimeout w")
    case None
    with ok have "timers w = []" by (simp add: world_ok_def timer_ok_def)
    with low Elapse show ?thesis by (simp add: elapse_no_timer)
  next
    case (Some h)
    with ok have "length (timers w) = 1" and "fst (hd (timers w)) = h"
      by (simp_all add: world_ok_def timer_ok_def)
    then obtain due where t: "timers w = [(h, due)]"
      by (cases "timers w") auto
    show ?thesis
    proof (cases "due \<le> now w + d")
      case True
      with t have "callback_due d w" by (simp add: callback_due_def)
      with elapse_resets [OF t True] Elapse show ?thesis by simp
    next
      case False
      with t low Elapse show ?thesis by (simp add: elapse_one_timer)
    qed
  qed
next
  case (PreviousRoute p)
  with low show ?thesis by (simp add: previousRoute_loader)
qed (use low in \<open>simp_all add: setSessionTheme_def setTitle_def addAction_def clearActions_def
      addBreadcrumb_def clearBreadcrumbs_def Let_def\<close>)

text \<open>
  Claim C6, as amended. Take any world \<open>w\<close> that calls of the view-frame factory and
  the passing of time reach from the module's initial state, in any order and number
  (\<open>ViewFrameProvider.initialize\<close> is not among them, nor is a write through the
  object that \<open>getState()\<close> hands out), and let \<open>w'\<close> be the world after one more
  \<open>incrementLoader()\<close>.

  \<^item> \<open>loaderWidth\<close> lies between 0 and 100, and \<open>loaderUnit\<close> is the rendering
    \<open>`${loaderWidth}vw`\<close> of \<open>loaderWidth\<close>.
  \<^item> \<open>incrementLoader()\<close> does not lower \<open>loaderWidth\<close>. A call or a lapse of time
    that lowers it brings it to 0, and is either \<open>resetLoader()\<close> or a lapse of time
    in which a queued callback comes due; so \<open>loaderWidth\<close> does not decrease as long
    as neither happens.
  \<^item> When \<open>incrementLoader()\<close> brings the width to 100, exactly one callback is queued
    and its handle is held; it was queued by this call, due 500 time units later and not
    firing before, if no handle was held, and no second one is queued if one was; and
    once 500 time units have passed with no further call, \<open>loaderWidth\<close> and
    \<open>loaderStep\<close> are 0, \<open>loaderUnit\<close> is \<open>'0vw'\<close>, the handle is cleared and the
    queue is empty.
\<close>

theorem loader_cycle:
  "let w = run isEmpty evs world0;
       w' = incrementLoader w
   in 0 \<le> loaderWidth (frame w)
    \<and> loaderWidth (frame w) \<le> 100
    \<and> loaderUnit (frame w) = vw (loaderWidth (frame w))
    \<and> loaderWidth (frame w) \<le> loaderWidth (frame w')
    \<and> (\<forall>e. loaderWidth (frame (step isEmpty e w)) < loaderWidth (frame w) \<longrightarrow>
           loaderWidth (frame (step isEmpty e w)) = 0
           \<and> (e = ResetLoader \<or> (\<exists>d. e = Elapse d \<and> callback_due d w)))
    \<and> (loaderWidth (frame w') = 100 \<longrightarrow>
         (\<exists>h due. loaderTimeout w' = Some h \<and> timers w' = [(h, due)]
            \<and> due \<le> now w' + 500
            \<and> (loaderTimeout w = None \<longrightarrow>
                 due = now w' + 500 \<and> (\<forall>d < 500. frame (elapse d w') = frame w'))
            \<and> (loaderTimeout w \<noteq> None \<longrightarrow> timers w' = timers w))
         \<and> loaderWidth (frame (elapse 500 w')) = 0
         \<and> loaderStep (frame (elapse 500 w')) = 0
         \<and> loaderUnit (frame (elapse 500 w')) = ''0vw''
         \<and> loaderTimeout (elapse 500 w') = None
         \<and> timers (elapse 500 w') = [])"
proof -
  define w where "w = run isEmpty evs world0"
  define w' where "w' = incrementLoader w"
  have ok: "world_ok w"
    unfolding w_def by (rule world_ok_run [OF world_ok_world0])
  from ok have l: "loader_ok (frame w)" by (simp add: world_ok_def)
  have mono: "loaderWidth (frame w) \<le> loaderWidth (frame w')"
    unfolding w'_def by (rule incrementLoader_mono [OF l])
  have lowers: "\<forall>e. loaderWidth (frame (step isEmpty e w)) < loaderWidth (frame w) \<longrightarrow>
           loaderWidth (frame (step isEmpty e w)) = 0
           \<and> (e = ResetLoader \<or> (\<exists>d. e = Elapse d \<and> callback_due d w))"
    using step_lowers [OF ok] by blast
  have timer: "(\<exists>h due. loaderTimeout w' = Some h \<and> timers w' = [(h, due)]
            \<and> due \<le> now w' + 500
            \<and> (loaderTimeout w = None \<longrightarrow>
                 due = now w' + 500 \<and> (\<forall>d < 500. frame (elapse d w') = frame w'))
            \<and> (loaderTimeout w \<noteq> None \<longrightarrow> timers w' = timers w))
         \<and> loaderWidth (frame (elapse 500 w')) = 0
         \<and> loaderStep (frame (elapse 500 w')) = 0
         \<and> loaderUnit (frame (elapse 500 w')) = ''0vw''
         \<and> loaderTimeout (elapse 500 w') = None
         \<and> timers (elapse 500 w') = []"
    if full: "loaderWidth (frame w') = 100"
  proof -
    from full have "loaderWidth (frame (incrementLoader w)) = 100" by (simp add: w'_def)
    from incrementLoader_timer [OF ok this]
    have "\<exists>h due. loaderTimeout w' = Some h \<and> timers w' = [(h, due)]
           \<and> due \<le> now w' + 500 \<and> (loaderTimeout w = None \<longrightarrow> due = now w' + 500)
           \<and> (loaderTimeout w \<noteq> None \<longrightarrow> timers w' = timers w)"
      by (simp add: w'_def)
    then obtain h due where h: "loaderTimeout w' = Some h" and t: "timers w' = [(h, due)]"
      and d: "due \<le> now w' + 500"
      and fresh: "loaderTimeout w = None \<longrightarrow> due = now w' + 500"
      and kept: "loaderTimeout w \<noteq> None \<longrightarrow> timers w' = timers w"
      by auto
    have early: "\<forall>d < 500. frame (elapse d w') = frame w'" if "loaderTimeout w = None"
    proof (intro allI impI)
      fix d :: nat
      assume "d < 500"
      with fresh that have "now w' + d < due" by simp
      from elapse_too_early [OF t this] show "frame (elapse d w') = frame w'" .
    qed
    from elapse_resets [OF t d] h t d fresh early kept show ?thesis by auto
  qed
  from l mono lowers timer show ?thesis
    unfolding Let_def w_def [symmetric] w'_def [symmetric]
    by (simp add: loader_ok_def)
qed

text \<open>From the initial state: \<open>setLoaderSteps(2)\<close> and one increment (width 51). A second
  increment reaches 100 and the deferred reset follows; \<open>resetLoader()\<close> instead
  lowers the width to 0.\<close>

theorem loader_cycle_witness:
  "loaderWidth (frame (run (\<lambda>v. v = JNull) [SetLoaderSteps 2, IncrementLoader] world0)) = 51
   \<and> loaderWidth (frame (incrementLoader
        (run (\<lambda>v. v = JNull) [SetLoaderSteps 2, IncrementLoader] world0))) = 100
   \<and> loaderWidth (frame (elapse 500 (incrementLoader
        (run (\<lambda>v. v = JNull) [SetLoaderSteps 2, IncrementLoader] world0)))) = 0
   \<and> loaderWidth (frame (step (\<lambda>v. v = JNull) ResetLoader
        (run (\<lambda>v. v = JNull) [SetLoaderSteps 2, IncrementLoader] world0))) = 0"
proof -
  let ?w = "run (\<lambda>v. v = JNull) [SetLoaderSteps 2, IncrementLoader] world0"
  have w: "frame ?w = frameState\<lparr> loaderStep := 50, loaderWidth := 51, loaderUnit := vw 51 \<rparr>"
    by (simp add: run_def world0_def frameState_def setLoaderSteps_def incrementLoader_def Let_def)
  have full: "loaderWidth (frame (incrementLoader ?w)) = 100"
    by (simp add: run_def world0_def frameState_def setLoaderSteps_def incrementLoader_def Let_def
        isNil_def setTimeout_def)
  have low: "loaderWidth (frame (step (\<lambda>v. v = JNull) ResetLoader ?w)) < loaderWidth (frame ?w)"
    by (simp add: w resetLoader_def)
  note t = loader_cycle [of "\<lambda>v. v = JNull" "[SetLoaderSteps 2, IncrementLoader]", unfolded Let_def]
  from t full have a: "loaderWidth (frame (elapse 500 (incrementLoader ?w))) = 0"
    by blast
  from t low have b: "loaderWidth (frame (step (\<lambda>v. v = JNull) ResetLoader ?w)) = 0"
    by blast
  from w full a b show ?thesis by simp
qed

text \<open>
  The claim as stated fails in two ways. A callback left pending by an earlier cycle
  (\<open>resetLoader()\<close> does not cancel it) fires in the next one: after
  \<open>setLoaderSteps(4)\<close> and one increment the width is 26; 500 time units later the
  width is 0 without having reached 100, and a further \<open>incrementLoader()\<close> leaves
  it at 0. And \<open>ViewFrameProvider.initialize({loaderWidth: 150})\<close> sets a width above
  100 and leaves \<open>loaderUnit\<close> at \<open>'0vw'\<close>; \<open>setLoaderSteps(2)\<close> then changes
  nothing, and \<open>incrementLoader()\<close> lowers the width to 100.
\<close>

theorem loader_cycle_counterexample:
  "loaderWidth (frame (run ((=) JNull)
      [SetLoaderSteps 1, IncrementLoader, ResetLoader, SetLoaderSteps 4, IncrementLoader]
      world0)) = 26
   \<and> loaderWidth (frame (run ((=) JNull)
      [SetLoaderSteps 1, IncrementLoader, ResetLoader, SetLoaderSteps 4, IncrementLoader,
       Elapse 500] world0)) = 0
   \<and> loaderWidth (frame (run ((=) JNull)
      [SetLoaderSteps 1, IncrementLoader, ResetLoader, SetLoaderSteps 4, IncrementLoader,
       Elapse 500, IncrementLoader] world0)) = 0
   \<and> ViewFrameProvider_initialize (JObj [(''loaderWidth'', JNum 150)]) (frame_store frameState)
      = frame_store (frameState\<lparr> loaderWidth := 150 \<rparr>)
   \<and> setLoaderSteps 2 (frameState\<lparr> loaderWidth := 150 \<rparr>) = frameState\<lparr> loaderWidth := 150 \<rparr>
   \<and> loaderUnit (frameState\<lparr> loaderWidth := 150 \<rparr>) = ''0vw''
   \<and> loaderWidth (frame (incrementLoader
        (world0\<lparr> frame := frameState\<lparr> loaderWidth := 150 \<rparr> \<rparr>))) = 100"
proof -
  have stale: "run ((=) JNull)
      [SetLoaderSteps 1, IncrementLoader, ResetLoader, SetLoaderSteps 4, IncrementLoader] world0
    = \<lparr> frame = frameState\<lparr> loaderStep := 25, loaderWidth := 26, loaderUnit := vw 26 \<rparr>,
        loaderTimeout = Some 1, timers = [(1, 500)], nextHandle = 2, now = 0 \<rparr>"
    by (simp add: run_def world0_def frameState_def setLoaderSteps_def incrementLoader_def
        resetLoader_def Let_def isNil_def setTimeout_def)
  have fired: "run ((=) JNull)
      [SetLoaderSteps 1, IncrementLoader, ResetLoader, SetLoaderSteps 4, IncrementLoader,
       Elapse 500] world0
    = \<lparr> frame = frameState\<lparr> loaderStep := 0, loaderWidth := 0, loaderUnit := vw 0 \<rparr>,
        loaderTimeout = None, timers = [], nextHandle = 2, now = 500 \<rparr>"
    using stale
    by (simp add: run_def elapse_def fire_def loaderTimeoutCallback_def clearTimeout_def
        frameState_def Let_def)
  have after: "loaderWidth (frame (run ((=) JNull)
      [SetLoaderSteps 1, IncrementLoader, ResetLoader, SetLoaderSteps 4, IncrementLoader,
       Elapse 500, IncrementLoader] world0)) = 0"
    using fired by (simp add: run_def incrementLoader_def frameState_def Let_def)
  have init: "ViewFrameProvider_initialize (JObj [(''loaderWidth'', JNum 150)])
        (frame_store frameState) = frame_store (frameState\<lparr> loaderWidth := 150 \<rparr>)"
    by (simp add: ViewFrameProvider_initialize_def for_in_def frame_store_def frameState_def
        read_def assign_def get_def lookup_def isDefined_def)
  have rest: "setLoaderSteps 2 (frameState\<lparr> loaderWidth := 150 \<rparr>)
        = frameState\<lparr> loaderWidth := 150 \<rparr>"
    "loaderUnit (frameState\<lparr> loaderWidth := 150 \<rparr>) = ''0vw''"
    "loaderWidth (frame (incrementLoader
        (world0\<lparr> frame := frameState\<lparr> loaderWidth := 150 \<rparr> \<rparr>))) = 100"
    by (simp_all add: setLoaderSteps_def frameState_def world0_def incrementLoader_def Let_def
        isNil_def setTimeout_def)
  from stale fired after init rest show ?thesis by simp
qed

text \<open>
  Claim C7, as amended. \<open>setLoaderSteps(n)\<close> called while \<open>loaderWidth\<close> is 0 and with
  \<open>n \<ge> 1\<close> sets \<open>loaderStep\<close> to \<open>\<lceil>100 / n\<rceil>\<close>, \<open>loaderWidth\<close> to 1 and
  \<open>loaderUnit\<close> to \<open>'1vw'\<close>. It changes nothing when \<open>loaderWidth\<close> is not 0,
  whatever \<open>n\<close>, and nothing when \<open>n < 1\<close>, idle or not: the source guards the
  update with \<open>steps >= 1\<close>.
\<close>

theorem setLoaderSteps_guarded:
  "(loaderWidth s = 0 \<and> n \<ge> 1 \<longrightarrow>
      setLoaderSteps n s =
        s\<lparr> loaderStep := \<lceil>100 / real_of_int n\<rceil>, loaderWidth := 1, loaderUnit := ''1vw'' \<rparr>)
   \<and> (loaderWidth s \<noteq> 0 \<longrightarrow> setLoaderSteps n s = s)
   \<and> (n < 1 \<longrightarrow> setLoaderSteps n s = s)"
  by (simp add: setLoaderSteps_def Let_def vw_1)

text \<open>Three steps from the idle initial state; a second call; and a call with 0.\<close>

theorem setLoaderSteps_guarded_witness:
  "setLoaderSteps 3 frameState = frameState\<lparr> loaderStep := 34, loaderWidth := 1, loaderUnit := ''1vw'' \<rparr>
   \<and> setLoaderSteps 7 (setLoaderSteps 3 frameState) = setLoaderSteps 3 frameState
   \<and> setLoaderSteps 0 frameState = frameState"
proof -
  have a: "loaderWidth frameState = 0 \<and> (3::int) \<ge> 1" by (simp add: frameState_def)
  have b: "loaderWidth (setLoaderSteps 3 frameState) \<noteq> 0"
    by (simp add: setLoaderSteps_def frameState_def)
  have c: "(0::int) < 1" by simp
  from setLoaderSteps_guarded [of frameState 3] a
    setLoaderSteps_guarded [of "setLoaderSteps 3 frameState" 7] b
    setLoaderSteps_guarded [of frameState 0] c
  show ?thesis by simp
qed

text \<open>The claim as stated fails: the initial state is idle, and \<open>setLoaderSteps(0)\<close>
  sets neither \<open>loaderWidth\<close> to 1 nor \<open>loaderStep\<close>.\<close>

theorem setLoaderSteps_zero_counterexample:
  "loaderWidth frameState = 0 \<and> loaderWidth (setLoaderSteps 0 frameState) = 0
   \<and> loaderStep (setLoaderSteps 0 frameState) = 50"
  by (simp add: setLoaderSteps_def frameState_def)

text \<open>
  Claim C8. \<open>addBreadcrumb(redirect, displayText)\<close> appends the entry
  \<open>{redirect, displayText}\<close>, with \<open>redirect\<close> as the text when \<open>_.isEmpty\<close> holds of
  the given one (\<open>null\<close> when omitted), and sets \<open>routeNext\<close> to \<open>redirect\<close> when the
  stack then has at least two entries, to \<open>''\<close> otherwise. From any state,
  \<open>clearBreadcrumbs(); addBreadcrumb("/a","A"); addBreadcrumb("/b","B")\<close> leaves
  \<open>routeNext\<close> equal to \<open>"/b"\<close>; \<open>previousRoute()\<close> then returns \<open>"/a"\<close> and
  leaves the stack empty, and a second \<open>previousRoute()\<close> returns \<open>""\<close>.
\<close>

theorem breadcrumb_scenario:
  "breadcrumbs (addBreadcrumb isEmpty r d s) =
      breadcrumbs s @ [\<lparr> redirect = r,
         displayText = (if isEmpty (default_param d JNull) then r else default_param d JNull) \<rparr>]
   \<and> routeNext (addBreadcrumb isEmpty r d s) =
      (if length (breadcrumbs s) + 1 \<ge> 2 then r else JStr '''')
   \<and> (let s2 = addBreadcrumb isEmpty (JStr ''/b'') (JStr ''B'')
                 (addBreadcrumb isEmpty (JStr ''/a'') (JStr ''A'') (clearBreadcrumbs s));
           s3 = snd (previousRoute JUndefined s2);
           s4 = snd (previousRoute JUndefined s3)
       in routeNext s2 = JStr ''/b''
        \<and> length (breadcrumbs s2) = 2
        \<and> fst (previousRoute JUndefined s2) = Inr (JStr ''/a'')
        \<and> breadcrumbs s3 = []
        \<and> routeNext s3 = JStr ''/a''
        \<and> fst (previousRoute JUndefined s3) = Inr (JStr '''')
        \<and> breadcrumbs s4 = []
        \<and> routeNext s4 = JStr '''')"
  by (simp add: addBreadcrumb_def clearBreadcrumbs_def previousRoute_def default_param_def
      pop_def Let_def)

text \<open>
  Claim C2. \<open>previousRoute(true)\<close> on a stack with exactly one entry does not return
  the empty string: it removes the entry, pops \<open>undefined\<close> from the empty array and
  raises \<open>TypeError\<close> on reading its \<open>redirect\<close>, leaving \<open>routeNext\<close> as it was. On
  the empty stack it returns \<open>''\<close>.
\<close>

theorem previousRoute_single_entry_raises:
  "previousRoute (JBool True)
     (frameState\<lparr> breadcrumbs := [\<lparr> redirect = JStr ''/a'', displayText = JStr ''A'' \<rparr>] \<rparr>)
   = (Inl TypeError, frameState\<lparr> breadcrumbs := [] \<rparr>)
   \<and> previousRoute (JBool True) frameState = (Inr (JStr ''''), frameState)"
  by (simp add: previousRoute_def default_param_def pop_def Let_def frameState_def)

section \<open>Properties of the REST provider\<close>

text \<open>The fields that \<open>configure\<close> reads name no built-in member, whatever the
  prototype: reading one yields a value.\<close>

lemma store_field_not_built_in:
  assumes "name \<in> {''host'', ''authorization'', ''accept'', ''contentType''}"
  shows "name \<notin> set Object_prototype \<and> name \<notin> set Array_prototype \<and> name \<noteq> ''__proto__''"
  using assms unfolding Object_prototype_def Array_prototype_def
  by (elim insertE emptyE; simp)

lemma store_field_is_value:
  assumes "name \<in> {''host'', ''authorization'', ''accept'', ''contentType''}"
  shows "read st name = Data (field st name)"
proof -
  note n = store_field_not_built_in [OF assms]
  have "inherited p name \<noteq> Native" for p
    using n by (cases p) (simp_all add: from_Object_prototype_def split: option.splits)
  then have "read st name \<noteq> Native"
    by (simp add: read_def split: option.splits)
  then show ?thesis
    by (cases "read st name") (simp_all add: field_def)
qed

lemma set_header_fields:
  "url (set_header name v r) = url r \<and> method' (set_header name v r) = method' r
   \<and> data (set_header name v r) = data r
   \<and> withCredentials (set_header name v r) = withCredentials r"
  by (simp add: set_header_def)

lemma forEach_header_fields:
  "url (forEach_header hs ks r) = url r \<and> method' (forEach_header hs ks r) = method' r
   \<and> data (forEach_header hs ks r) = data r
   \<and> withCredentials (forEach_header hs ks r) = withCredentials r"
  unfolding forEach_header_def
  by (induction ks arbitrary: r) (simp_all add: set_header_fields)

lemma resolve_url_fields:
  "url (resolve_url cfg options r) = base_url cfg options
   \<and> method' (resolve_url cfg options r) = method' r
   \<and> data (resolve_url cfg options r) = data r
   \<and> withCredentials (resolve_url cfg options r) = withCredentials r"
  by (simp add: resolve_url_def base_url_def)

lemma copy_data_fields:
  "url (copy_data options r) = url r
   \<and> method' (copy_data options r) = method' r
   \<and> data (copy_data options r)
       = (if typeof (get options ''data'') = ''object'' then Some (get options ''data'') else data r)
   \<and> withCredentials (copy_data options r) = withCredentials r"
  by (simp add: copy_data_def)

lemma store_authorization_fields:
  "url (store_authorization cfg r) = url r
   \<and> method' (store_authorization cfg r) = method' r
   \<and> data (store_authorization cfg r) = data r
   \<and> withCredentials (store_authorization cfg r)
       = (typeof (field cfg ''authorization'') = ''string'' \<or> withCredentials r)"
  by (simp add: store_authorization_def set_header_fields)

lemma store_accept_fields:
  "url (store_accept cfg r) = url r
   \<and> method' (store_accept cfg r) = method' r
   \<and> data (store_accept cfg r) = data r
   \<and> withCredentials (store_accept cfg r) = withCredentials r"
  by (simp add: store_accept_def set_header_fields)

lemma store_contentType_fields:
  "url (store_contentType cfg r) = url r
   \<and> method' (store_contentType cfg r) = method' r
   \<and> data (store_contentType cfg r) = data r
   \<and> withCredentials (store_contentType cfg r) = withCredentials r"
  by (simp add: store_contentType_def set_header_fields)

lemma append_query_fields:
  "url (append_query options r)
     = (if typeof (get options ''query'') = ''object''
        then JStr (to_string (url r) @ ''?'' @ toString (build_query (get options ''query'')))
        else url r)
   \<and> method' (append_query options r) = method' r
   \<and> data (append_query options r) = data r
   \<and> withCredentials (append_query options r) = withCredentials r"
  by (simp add: append_query_def Let_def)

lemma delete_empty_headers_fields:
  "url (delete_empty_headers r) = url r
   \<and> method' (delete_empty_headers r) = method' r
   \<and> data (delete_empty_headers r) = data r
   \<and> withCredentials (delete_empty_headers r) = withCredentials r"
  by (simp add: delete_empty_headers_def)

lemma store_request_fields:
  "url (store_request cfg options) = base_url cfg options
   \<and> method' (store_request cfg options) = get options ''method''
   \<and> data (store_request cfg options)
       = (if typeof (get options ''data'') = ''object'' then Some (get options ''data'') else None)
   \<and> withCredentials (store_request cfg options)
       = (typeof (field cfg ''authorization'') = ''string'')"
  unfolding store_request_def
  by (simp add: store_contentType_fields store_accept_fields store_authorization_fields
      copy_data_fields resolve_url_fields initial_request_def)

lemma caller_headers_returns:
  assumes "get options ''headers'' \<noteq> JNull"
  shows "caller_headers options r =
     Inr (if typeof (get options ''headers'') = ''object''
          then forEach_header (get options ''headers'') (for_in (get options ''headers'')) r
          else r)"
  using assms by (cases "get options ''headers''") (simp_all add: caller_headers_def Object_keys_def)

lemma configure_returns:
  assumes "options \<noteq> JUndefined" and "options \<noteq> JNull" and "get options ''headers'' \<noteq> JNull"
  shows "\<exists>r. configure cfg options = Inr r
     \<and> method' r = get options ''method''
     \<and> url r = (if typeof (get options ''query'') = ''object''
                then JStr (to_string (base_url cfg options) @ ''?''
                           @ toString (build_query (get options ''query'')))
                else base_url cfg options)
     \<and> data r = (if typeof (get options ''data'') = ''object''
                 then Some (get options ''data'') else None)
     \<and> withCredentials r = (typeof (field cfg ''authorization'') = ''string'')"
proof -
  let ?r0 = "store_request cfg options"
  let ?r1 = "if typeof (get options ''headers'') = ''object''
          then forEach_header (get options ''headers'') (for_in (get options ''headers'')) ?r0
          else ?r0"
  have c: "configure cfg options = Inr (delete_empty_headers (append_query options ?r1))"
    using assms(1,2) caller_headers_returns [OF assms(3), of ?r0]
    by (simp add: configure_def Let_def store_request_def)
  have f: "url ?r1 = base_url cfg options" "method' ?r1 = get options ''method''"
    "data ?r1 = (if typeof (get options ''data'') = ''object''
                 then Some (get options ''data'') else None)"
    "withCredentials ?r1 = (typeof (field cfg ''authorization'') = ''string'')"
    by (simp_all add: forEach_header_fields store_request_fields)
  show ?thesis
    unfolding c
    by (intro exI [of _ "delete_empty_headers (append_query options ?r1)"] conjI refl)
      (simp_all only: delete_empty_headers_fields append_query_fields f)
qed

lemma js_add_string_left: "js_add (JStr h) v = JStr (h @ to_string v)"
  by (cases v) (simp_all add: js_add_def Let_def)

text \<open>
  Claim C1, as amended. Let \<open>options\<close> be a value of plain data other than \<open>null\<close>
  and \<open>undefined\<close> whose \<open>headers\<close> is not \<open>null\<close>, and let the store hold plain
  data (the numbers of plain data are safe integers, which \<open>String\<close> renders in
  decimal and whose sums \<open>+\<close> computes as modelled). Then \<open>configure(options)\<close>
  returns a descriptor. Its URL starts from the base resolved by the precedence:
  \<open>options.url\<close> verbatim when it is a string; otherwise \<open>host + options.endpoint\<close>
  when the endpoint is a string; otherwise \<open>host + options.resource\<close> (with a string
  host, \<open>+\<close> is concatenation with the other operand's string). The URL is that base
  exactly when \<open>typeof options.query\<close> is not \<open>'object'\<close>; when it is, the URL is
  the base followed by \<open>?\<close> and the serialized query.
\<close>

theorem configure_url:
  assumes "plain options" and "plain_store cfg"
    and "options \<noteq> JUndefined" and "options \<noteq> JNull"
    and "get options ''headers'' \<noteq> JNull"
  shows "\<exists>r. configure cfg options = Inr r
     \<and> (let base =
              (if typeof (get options ''url'') = ''string'' then get options ''url''
               else if typeof (get options ''endpoint'') = ''string''
               then js_add (field cfg ''host'') (get options ''endpoint'')
               else js_add (field cfg ''host'') (get options ''resource''))
         in url r =
              (if typeof (get options ''query'') = ''object''
               then JStr (to_string base @ ''?'' @ toString (build_query (get options ''query'')))
               else base)
            \<and> (\<forall>h. field cfg ''host'' = JStr h \<longrightarrow>
                  js_add (field cfg ''host'') (get options ''endpoint'')
                    = JStr (h @ to_string (get options ''endpoint''))
                  \<and> js_add (field cfg ''host'') (get options ''resource'')
                    = JStr (h @ to_string (get options ''resource''))))"
proof -
  from configure_returns [OF assms(3,4,5), of cfg]
  obtain r where r: "configure cfg options = Inr r"
    and u: "url r = (if typeof (get options ''query'') = ''object''
                then JStr (to_string (base_url cfg options) @ ''?''
                           @ toString (build_query (get options ''query'')))
                else base_url cfg options)"
    by blast
  from r u show ?thesis
    by (auto simp: base_url_def Let_def js_add_string_left)
qed

text \<open>The claim as stated fails: with a string \<open>url\<close> and a \<open>query\<close>, the descriptor's
  URL is not \<open>options.url\<close>.\<close>

theorem configure_url_counterexample:
  "configure REST_CONFIG
     (JObj [(''url'', JStr ''http://q/x''), (''endpoint'', JStr ''/e''),
            (''query'', JObj [(''a'', JStr ''1'')])])
   = Inr \<lparr> method' = JUndefined, url = JStr ''http://q/x?a=1'', data = None,
           headers = Some \<lparr> own = [(''Accept'', JStr ''application/json''),
                                    (''Content-Type'', JStr ''application/json'')],
                            proto = JObj [] \<rparr>,
           withCredentials = False \<rparr>"
  by code_simp

text \<open>Host \<open>"h"\<close> and endpoint \<open>"/x"\<close> give \<open>"h/x"\<close>; and a \<open>url\<close> that has a
  \<open>?\<close>, with a query that holds a number, a \<open>null\<close> and characters to encode.\<close>

theorem configure_url_witness:
  "(\<exists>r. configure (setHost (JStr ''h'') REST_CONFIG)
          (JObj [(''method'', JStr ''GET''), (''endpoint'', JStr ''/x'')]) = Inr r
        \<and> url r = JStr ''h/x'')
   \<and> (\<exists>r. configure (setHost (JStr ''h'') REST_CONFIG)
             (JObj [(''url'', JStr ''http://h/x?a=1''),
                    (''query'', JObj [(''b'', JNum 2), (''c'', JNull), (''d e'', JStr ''f&g'')])])
            = Inr r
          \<and> url r = JStr ''http://h/x?a=1?b=2&d+e=f%26g'')"
proof -
  let ?cfg = "setHost (JStr ''h'') REST_CONFIG"
  let ?o1 = "JObj [(''method'', JStr ''GET''), (''endpoint'', JStr ''/x'')]"
  let ?o2 = "JObj [(''url'', JStr ''http://h/x?a=1''),
                   (''query'', JObj [(''b'', JNum 2), (''c'', JNull), (''d e'', JStr ''f&g'')])]"
  have p1: "plain ?o1" "plain_store ?cfg" "?o1 \<noteq> JUndefined" "?o1 \<noteq> JNull"
    "get ?o1 ''headers'' \<noteq> JNull"
    by code_simp+
  have p2: "plain ?o2" "plain_store ?cfg" "?o2 \<noteq> JUndefined" "?o2 \<noteq> JNull"
    "get ?o2 ''headers'' \<noteq> JNull"
    by code_simp+
  have u1: "get ?o1 ''url'' = JUndefined" "get ?o1 ''endpoint'' = JStr ''/x''"
    "get ?o1 ''query'' = JUndefined" "field ?cfg ''host'' = JStr ''h''"
    by code_simp+
  have s1: "js_add (JStr ''h'') (JStr ''/x'') = JStr ''h/x''"
    by code_simp
  have u2: "get ?o2 ''url'' = JStr ''http://h/x?a=1''" "typeof (get ?o2 ''query'') = ''object''"
    by code_simp+
  have s2: "to_string (JStr ''http://h/x?a=1'') @ ''?'' @ toString (build_query (get ?o2 ''query''))
           = ''http://h/x?a=1?b=2&d+e=f%26g''"
    by code_simp
  from configure_url [OF p1]
  have a: "\<exists>r. configure ?cfg ?o1 = Inr r \<and> url r = JStr ''h/x''"
    by (simp add: Let_def u1 s1) (elim exE conjE, intro exI conjI, assumption+)
  note t2 = configure_url [OF p2, unfolded Let_def u2 typeof.simps simp_thms if_True s2]
  from t2 have b: "\<exists>r. configure ?cfg ?o2 = Inr r \<and> url r = JStr ''http://h/x?a=1?b=2&d+e=f%26g''"
    by - (elim exE conjE, intro exI conjI, assumption+)
  from a b show ?thesis by (rule conjI)
qed

text \<open>
  Claim C3. \<open>configure\<close> does not serialize the query of every options value:
  with \<open>headers: null\<close> beside the query it raises \<open>TypeError\<close> at
  \<open>Object.keys(options.headers)\<close>, before the query is read. Without \<open>headers\<close> the
  same query is serialized as the claim says: the \<open>null\<close> entry is left out, the others
  are encoded in order and appended after one \<open>?\<close>, also to a URL that has one.
\<close>

theorem configure_query_null_headers:
  "configure REST_CONFIG
     (JObj [(''url'', JStr ''http://h/x?a=1''),
            (''query'', JObj [(''b'', JNum 2), (''c'', JNull), (''d e'', JStr ''f&g'')]),
            (''headers'', JNull)])
   = Inl TypeError
   \<and> configure REST_CONFIG
     (JObj [(''url'', JStr ''http://h/x?a=1''),
            (''query'', JObj [(''b'', JNum 2), (''c'', JNull), (''d e'', JStr ''f&g'')])])
   = Inr \<lparr> method' = JUndefined, url = JStr ''http://h/x?a=1?b=2&d+e=f%26g'', data = None,
           headers = Some \<lparr> own = [(''Accept'', JStr ''application/json''),
                                    (''Content-Type'', JStr ''application/json'')],
                            proto = JObj [] \<rparr>,
           withCredentials = False \<rparr>"
  by code_simp

text \<open>
  Claim C4. \<open>configure\<close> does not build the headers of every options value: for
  \<open>headers: null\<close> the test \<open>typeof options.headers === 'object'\<close> holds and
  \<open>Object.keys(null)\<close> raises \<open>TypeError\<close>. The sibling tests on \<open>options.data\<close>
  and \<open>options.query\<close> let \<open>null\<close> through without raising: the first copies it, the
  second loops over nothing. With a caller's headers that are an object, the
  descriptor's headers are as the claim says: the store's three, \<open>Accept\<close> overridden
  and \<open>X-A\<close> added by the caller, and \<open>withCredentials\<close> set with \<open>Authorization\<close>.
\<close>

theorem configure_null_headers:
  "configure REST_CONFIG
     (JObj [(''method'', JStr ''GET''), (''endpoint'', JStr ''/x''), (''headers'', JNull)])
   = Inl TypeError
   \<and> configure REST_CONFIG
     (JObj [(''method'', JStr ''GET''), (''endpoint'', JStr ''/x''), (''data'', JNull),
            (''query'', JNull)])
   = Inr \<lparr> method' = JStr ''GET'', url = JStr ''/x?'', data = Some JNull,
           headers = Some \<lparr> own = [(''Accept'', JStr ''application/json''),
                                    (''Content-Type'', JStr ''application/json'')],
                            proto = JObj [] \<rparr>,
           withCredentials = False \<rparr>
   \<and> configure (setBasicAuth (JStr ''user'') (JStr ''pass'') REST_CONFIG)
       (JObj [(''endpoint'', JStr ''/x''),
              (''headers'', JObj [(''Accept'', JStr ''text/plain''), (''X-A'', JStr ''1'')])])
   = Inr \<lparr> method' = JUndefined, url = JStr ''/x'', data = None,
           headers = Some \<lparr> own = [(''Authorization'', JStr ''Basic dXNlcjpwYXNz''),
                                    (''Accept'', JStr ''text/plain''),
                                    (''Content-Type'', JStr ''application/json''),
                                    (''X-A'', JStr ''1'')],
                            proto = JObj [] \<rparr>,
           withCredentials = True \<rparr>"
  by code_simp

text \<open>
  Claim C5. \<open>initialize\<close> does not ignore every unrecognized key: \<open>toString\<close> is not
  a field of the store, but \<open>REST_CONFIG['toString']\<close> reads the function that every
  object inherits, which is defined, so \<open>initialize({toString: 'x'})\<close> adds a fifth
  property to the store. A key that names nothing inherited is ignored, as in the
  spec's \<open>initialize({unknownKey: 1, host: "a"})\<close>, which changes only \<open>host\<close>.
  The credentials are encoded when they are set: \<open>initialize({authorization:
  'user:pass'})\<close> and \<open>setBasicAuth('user', 'pass')\<close> store the same ready value, and
  \<open>setBasicAuth('user')\<close> encodes \<open>user:\<close>.
\<close>

theorem RestProvider_initialize_inherited_key:
  "RestProvider_initialize (JObj [(''toString'', JStr ''x'')]) REST_CONFIG
   = REST_CONFIG\<lparr> own := own REST_CONFIG @ [(''toString'', JStr ''x'')] \<rparr>
   \<and> RestProvider_initialize (JObj [(''unknownKey'', JNum 1), (''host'', JStr ''a'')]) REST_CONFIG
   = setHost (JStr ''a'') REST_CONFIG
   \<and> field (RestProvider_initialize (JObj [(''authorization'', JStr ''user:pass'')]) REST_CONFIG)
       ''authorization'' = JStr ''Basic dXNlcjpwYXNz''
   \<and> field (setBasicAuth (JStr ''user'') (JStr ''pass'') REST_CONFIG) ''authorization''
     = JStr ''Basic dXNlcjpwYXNz''
   \<and> field (setBasicAuth (JStr ''user'') JUndefined REST_CONFIG) ''authorization''
     = JStr ''Basic dXNlcjo=''"
  by code_simp

section \<open>Properties of the view-frame provider's initializer\<close>

text \<open>
  Claim C10. \<open>ViewFrameProvider.initialize\<close> does not overwrite the recognized
  fields only: \<open>toString\<close> is not a field of \<open>frameState\<close>, but
  \<open>frameState['toString']\<close> reads the function that every object inherits, which is
  defined, so \<open>initialize({toString: 'x'})\<close> adds a tenth property to the object. A
  key that names nothing inherited is ignored. \<open>loaderUnit\<close> is not recomputed: after
  \<open>initialize({loaderWidth: 40})\<close> on the initial state \<open>loaderWidth\<close> is 40 and
  \<open>loaderUnit\<close> is still \<open>'0vw'\<close>, not \<open>'40vw'\<close>.
\<close>

theorem ViewFrameProvider_initialize_inherited_key:
  "ViewFrameProvider_initialize (JObj [(''toString'', JStr ''x'')]) (frame_store frameState)
   = (frame_store frameState)\<lparr> own := own (frame_store frameState) @ [(''toString'', JStr ''x'')] \<rparr>
   \<and> length (own (ViewFrameProvider_initialize (JObj [(''toString'', JStr ''x'')])
        (frame_store frameState))) = 10
   \<and> ViewFrameProvider_initialize (JObj [(''unknownKey'', JNum 1)]) (frame_store frameState)
   = frame_store frameState
   \<and> ViewFrameProvider_initialize (JObj [(''loaderWidth'', JNum 40)]) (frame_store frameState)
   = frame_store (frameState\<lparr> loaderWidth := 40 \<rparr>)
   \<and> loaderUnit (frameState\<lparr> loaderWidth := 40 \<rparr>) = ''0vw''
   \<and> vw 40 = ''40vw''"
  by code_simp

end
